theory Spec2Isabelle
  imports Main "HOL-Library.Word"
begin

section \<open>ioFabricClient.js: the client of ioFabric's Local API\<close>

text \<open>
  A shallow embedding of \<^verbatim>\<open>src/ioFabricClient.js\<close>. The module's variables
  (\<^verbatim>\<open>ELEMENT_ID\<close>, \<^verbatim>\<open>SSL\<close>, \<^verbatim>\<open>host\<close>, \<^verbatim>\<open>port\<close>, \<^verbatim>\<open>wsMessage\<close>, \<^verbatim>\<open>wsControl\<close>) are the
  fields of a state record that every function takes and returns. WebSocket objects live
  in a store (a list addressed by index); a JavaScript variable that holds a socket holds
  an index into the store, and \<^verbatim>\<open>undefined\<close> is \<open>None\<close>. Calls that leave the module
  (application callbacks, the \<^verbatim>\<open>ping\<close> child process, HTTP posts) are appended to a log
  in the order the code makes them. A \<^verbatim>\<open>throw\<close> is the left injection of the result,
  together with the state at the moment of the throw.
\<close>

subsection \<open>Values of the platform\<close>

type_synonym byte = "8 word"

datatype js_error = Error string | RangeError | TypeError | CallbackError

datatype jsval =
    JUndefined
  | JNull
  | JBool bool
  | JNum int
  | JStr string
  | JArr "jsval list"
  | JObj "(string \<times> jsval) list"

text \<open>\<^verbatim>\<open>Array.isArray\<close>.\<close>

fun isArray :: "jsval \<Rightarrow> bool" where
  "isArray (JArr xs) = True"
| "isArray v = False"

text \<open>
  Truthiness of a value that is a string or \<^verbatim>\<open>undefined\<close>: only a non-empty string is
  truthy.
\<close>

fun truthy :: "string option \<Rightarrow> bool" where
  "truthy None = False"
| "truthy (Some s) = (s \<noteq> [])"

subsection \<open>Constants of the module (lines 9-14)\<close>

definition OPCODE_PING :: byte where "OPCODE_PING = 0x9"
definition OPCODE_PONG :: byte where "OPCODE_PONG = 0xA"
definition OPCODE_ACK :: byte where "OPCODE_ACK = 0xB"
definition OPCODE_CONTROL_SIGNAL :: byte where "OPCODE_CONTROL_SIGNAL = 0xC"
definition OPCODE_MSG :: byte where "OPCODE_MSG = 0xD"
definition OPCODE_RECEIPT :: byte where "OPCODE_RECEIPT = 0xE"

subsection \<open>Node's Buffer\<close>

text \<open>
  \<^verbatim>\<open>buf.readUIntBE(offset, byteLength)\<close>: the unsigned big-endian value of the
  \<open>byteLength\<close> bytes at \<open>offset\<close>. Node accepts a \<open>byteLength\<close> from 1 to 6 (48 bits,
  which a JavaScript number holds exactly) and throws a \<^verbatim>\<open>RangeError\<close> for any other; it
  throws a \<^verbatim>\<open>RangeError\<close> too when the bytes are not all inside the buffer.
\<close>

definition readUIntBE :: "byte list \<Rightarrow> nat \<Rightarrow> nat \<Rightarrow> js_error + nat" where
  "readUIntBE data offset byteLength =
     (if byteLength < 1 \<or> 6 < byteLength then Inl RangeError
      else if offset + byteLength > length data then Inl RangeError
      else Inr (foldl (\<lambda>val b. val * 256 + unat b) 0 (take byteLength (drop offset data))))"

text \<open>\<^verbatim>\<open>buf.slice(start, stop)\<close> clamps both positions to the buffer and never throws.\<close>

definition slice :: "byte list \<Rightarrow> nat \<Rightarrow> nat \<Rightarrow> byte list" where
  "slice data start stop = take (stop - start) (drop start data)"

text \<open>\<^verbatim>\<open>data[i]\<close>: the byte as a number, \<^verbatim>\<open>undefined\<close> outside the buffer.\<close>

definition byteAt :: "byte list \<Rightarrow> nat \<Rightarrow> nat option" where
  "byteAt data i = (if i < length data then Some (unat (data ! i)) else None)"

subsection \<open>Sockets and the state of the module\<close>

datatype readyState = CONNECTING | OPEN | CLOSING | CLOSED

datatype channel = Control | Message

datatype frame = DataFrame "byte list" | PongFrame "byte list"

text \<open>
  A WebSocket object as \<^verbatim>\<open>makeWSRequest\<close> sets it up: the URL it was constructed with,
  the closure it carries (\<open>handlers\<close> says which \<^verbatim>\<open>onDataCb\<close> and \<^verbatim>\<open>listenerCb\<close>;
  \<open>has_sendMsgCb\<close> whether the caller supplied a \<^verbatim>\<open>sendMsgCb\<close>), whether the \<^verbatim>\<open>'ping'\<close> listener is registered yet, and the frames
  written to it so far.
\<close>

record socket =
  ws_url :: string
  readyState :: readyState
  handlers :: channel
  has_sendMsgCb :: bool
  pingListener :: bool
  written :: "frame list"

text \<open>
  What the module calls outside itself. The number is the socket whose closure made the
  call.
\<close>

datatype 'e call =
    MainCb
  | Exec string
  | HttpPost string "(string \<times> jsval) list"
  | SendMsgCb nat
  | OnError nat
  | OnNewConfigSignal nat
  | OnMessages nat "'e list"
  | OnMessageReceipt nat string nat

record 'e state =
  ELEMENT_ID :: string
  SSL :: bool
  host :: string
  port :: int
  wsMessage :: "nat option"
  wsControl :: "nat option"
  argv :: "string list"
  env_SELFNAME :: "string option"
  env_SSL :: "string option"
  sockets :: "socket list"
  calls :: "'e call list"

type_synonym 'e result = "(js_error \<times> 'e state) + 'e state"

text \<open>The state a result leaves behind, thrown or not.\<close>

fun state_of :: "'e result \<Rightarrow> 'e state" where
  "state_of (Inl (e, st)) = st"
| "state_of (Inr st) = st"

text \<open>
  The module as loaded (lines 22-28), in a process started with the given command line
  and environment.
\<close>

definition initial :: "string list \<Rightarrow> string option \<Rightarrow> string option \<Rightarrow> 'e state" where
  "initial args selfname ssl =
     \<lparr>ELEMENT_ID = ''NOT_DEFINED'', SSL = False, host = ''iofabric'', port = 54321,
      wsMessage = None, wsControl = None, argv = args,
      env_SELFNAME = selfname, env_SSL = ssl, sockets = [], calls = []\<rparr>"

text \<open>
  \<^verbatim>\<open>ws.send(buffer, {binary: true, mask: true})\<close> and \<^verbatim>\<open>ws.pong(buffer, ...)\<close> of the
  \<^verbatim>\<open>ws\<close> library: the frame goes out on a socket that is open, and the call throws
  (\<^verbatim>\<open>not opened\<close>) on one that is not.
\<close>

definition ws_write :: "nat \<Rightarrow> frame \<Rightarrow> 'e state \<Rightarrow> 'e result" where
  "ws_write i f st =
     (if i < length (sockets st) \<and> readyState (sockets st ! i) = OPEN
      then Inr (st\<lparr>sockets := (sockets st)
                  [i := (sockets st ! i)\<lparr>written := written (sockets st ! i) @ [f]\<rparr>]\<rparr>)
      else Inl (Error ''not opened'', st))"

definition ws_send :: "nat \<Rightarrow> byte list \<Rightarrow> 'e state \<Rightarrow> 'e result" where
  "ws_send i buffer st = ws_write i (DataFrame buffer) st"

definition ws_pong :: "nat \<Rightarrow> byte list \<Rightarrow> 'e state \<Rightarrow> 'e result" where
  "ws_pong i buffer st = ws_write i (PongFrame buffer) st"

subsection \<open>sendAck (lines 235-239)\<close>

definition sendAck :: "nat option \<Rightarrow> 'e state \<Rightarrow> 'e result" where
  "sendAck ws st =
     (let buffer = [OPCODE_ACK]
      in case ws of None \<Rightarrow> Inr st | Some i \<Rightarrow> ws_send i buffer st)"

subsection \<open>The frame handlers (lines 163-171 and 184-213)\<close>

text \<open>
  \<^verbatim>\<open>wsHandleControlData\<close>, the \<^verbatim>\<open>onDataCb\<close> of the control connection, in the closure of
  socket \<open>i\<close>. The argument of \<^verbatim>\<open>sendAck\<close> is the module's variable \<^verbatim>\<open>wsControl\<close>.
\<close>

definition wsHandleControlData :: "nat \<Rightarrow> byte list \<Rightarrow> bool \<Rightarrow> 'e state \<Rightarrow> 'e result" where
  "wsHandleControlData i data binary st =
     (if binary \<and> length data > 0 then
        (let opcode = data ! 0
         in if opcode = OPCODE_CONTROL_SIGNAL
            then sendAck (wsControl st) (st\<lparr>calls := calls st @ [OnNewConfigSignal i]\<rparr>)
            else Inr st)
      else Inr st)"

text \<open>
  \<^verbatim>\<open>wsHandleMessageData\<close>, the \<^verbatim>\<open>onDataCb\<close> of the message connection. The decoder of the
  entity (\<^verbatim>\<open>ioMessageUtil.ioMessageFromBuffer\<close>) and the platform's UTF-8 decoder
  (\<^verbatim>\<open>Buffer.toString('utf-8')\<close>) are parameters, and so are total: a frame is
  dispatched when the decoder and the application's callback return. The MESSAGE branch
  calls \<^verbatim>\<open>sendAck()\<close> with no argument, the RECEIPT branch calls it with the module's
  variable \<^verbatim>\<open>wsMessage\<close>.
\<close>

definition wsHandleMessageData ::
  "(byte list \<Rightarrow> 'e) \<Rightarrow> (byte list \<Rightarrow> string) \<Rightarrow> nat \<Rightarrow> byte list \<Rightarrow> bool \<Rightarrow> 'e state \<Rightarrow> 'e result"
where
  "wsHandleMessageData ioMessageFromBuffer toString i data binary st =
     (if binary \<and> length data > 0 then
        (let opcode = data ! 0
         in if opcode = OPCODE_MSG then
              (let pos = 1
               in case readUIntBE data pos 4 of
                    Inl e \<Rightarrow> Inl (e, st)
                  | Inr msgLength \<Rightarrow>
                      (let pos = pos + 4;
                           bytes = slice data pos (msgLength + pos);
                           msg = ioMessageFromBuffer bytes
                       in sendAck None (st\<lparr>calls := calls st @ [OnMessages i [msg]]\<rparr>)))
            else if opcode = OPCODE_RECEIPT then
              (let size1 = byteAt data 1;
                   pos = 3;
                   (messageId, pos) =
                     (case size1 of
                        None \<Rightarrow> ('''', pos)
                      | Some n \<Rightarrow>
                          if n > 0 then (toString (slice data pos (pos + n)), pos + n)
                          else ('''', pos));
                   size2 = byteAt data 2
               in case (case size2 of
                          None \<Rightarrow> Inr 0
                        | Some n \<Rightarrow> if n > 0 then readUIntBE data pos n else Inr 0) of
                    Inl e \<Rightarrow> Inl (e, st)
                  | Inr timestamp \<Rightarrow>
                      sendAck (wsMessage st)
                        (st\<lparr>calls := calls st @ [OnMessageReceipt i messageId timestamp]\<rparr>))
            else Inr st)
      else Inr st)"

subsection \<open>Strings\<close>

text \<open>
  A string is the list of the bytes of its UTF-8 encoding. \<open>whiteSpace\<close> lists the
  encodings of the code points that \<^verbatim>\<open>String.prototype.trim\<close> removes (ECMAScript's
  WhiteSpace and LineTerminator): U+0009 to U+000D, U+0020, U+00A0, U+1680, U+2000 to
  U+200A, U+2028, U+2029, U+202F, U+205F, U+3000 and U+FEFF.
\<close>

definition whiteSpace :: "string list" where
  "whiteSpace =
     [[CHR 0x09], [CHR 0x0A], [CHR 0x0B], [CHR 0x0C], [CHR 0x0D], [CHR 0x20],
      [CHR 0xC2, CHR 0xA0], [CHR 0xE1, CHR 0x9A, CHR 0x80],
      [CHR 0xE2, CHR 0x80, CHR 0x80], [CHR 0xE2, CHR 0x80, CHR 0x81],
      [CHR 0xE2, CHR 0x80, CHR 0x82], [CHR 0xE2, CHR 0x80, CHR 0x83],
      [CHR 0xE2, CHR 0x80, CHR 0x84], [CHR 0xE2, CHR 0x80, CHR 0x85],
      [CHR 0xE2, CHR 0x80, CHR 0x86], [CHR 0xE2, CHR 0x80, CHR 0x87],
      [CHR 0xE2, CHR 0x80, CHR 0x88], [CHR 0xE2, CHR 0x80, CHR 0x89],
      [CHR 0xE2, CHR 0x80, CHR 0x8A], [CHR 0xE2, CHR 0x80, CHR 0xA8],
      [CHR 0xE2, CHR 0x80, CHR 0xA9], [CHR 0xE2, CHR 0x80, CHR 0xAF],
      [CHR 0xE2, CHR 0x81, CHR 0x9F], [CHR 0xE3, CHR 0x80, CHR 0x80],
      [CHR 0xEF, CHR 0xBB, CHR 0xBF]]"

text \<open>The white space a string starts with, if it starts with any.\<close>

definition leadingWhiteSpace :: "string \<Rightarrow> string option" where
  "leadingWhiteSpace s = find (\<lambda>w. w \<noteq> [] \<and> take (length w) s = w) whiteSpace"

function trimStart :: "string \<Rightarrow> string" where
  "trimStart s =
     (case leadingWhiteSpace s of
        None \<Rightarrow> s
      | Some w \<Rightarrow> trimStart (drop (length w) s))"
  by pat_completeness auto
termination
proof (relation "measure length")
  show "wf (measure length)" by simp
next
  fix s w :: string
  assume "leadingWhiteSpace s = Some w"
  then have "w \<noteq> []" and "take (length w) s = w"
    by (auto simp: leadingWhiteSpace_def find_Some_iff)
  then have "s \<noteq> []" and "0 < length w"
    by auto
  then show "(drop (length w) s, s) \<in> measure length"
    by simp
qed

declare trimStart.simps [simp del]

text \<open>
  \<^verbatim>\<open>!s.trim()\<close>: the trimmed string is empty exactly when nothing is left once the
  leading white space is gone.
\<close>

definition trimsToEmpty :: "string \<Rightarrow> bool" where
  "trimsToEmpty s = (trimStart s = [])"

text \<open>\<^verbatim>\<open>!x || !x.trim()\<close> for a string or \<^verbatim>\<open>undefined\<close>.\<close>

fun blank :: "string option \<Rightarrow> bool" where
  "blank None = True"
| "blank (Some s) = (s = [] \<or> trimsToEmpty s)"

text \<open>A number in a string concatenation: the decimal digits of an integer.\<close>

fun digits :: "nat \<Rightarrow> string" where
  "digits n =
     (if n < 10 then [''0123456789'' ! n]
      else digits (n div 10) @ [''0123456789'' ! (n mod 10)])"

declare digits.simps [simp del]

definition numberToString :: "int \<Rightarrow> string" where
  "numberToString n = (if n < 0 then CHR ''-'' # digits (nat (- n)) else digits (nat n))"

text \<open>\<^verbatim>\<open>s.indexOf(c)\<close> and \<^verbatim>\<open>s.split(c)\<close> for a separator of one character.\<close>

definition indexOf :: "string \<Rightarrow> char \<Rightarrow> int" where
  "indexOf s c =
     (let n = length (takeWhile (\<lambda>x. x \<noteq> c) s)
      in if n < length s then int n else - 1)"

function split_str :: "string \<Rightarrow> char \<Rightarrow> string list" where
  "split_str s c =
     (case dropWhile (\<lambda>x. x \<noteq> c) s of
        [] \<Rightarrow> [s]
      | x # ys \<Rightarrow> takeWhile (\<lambda>x. x \<noteq> c) s # split_str ys c)"
  by pat_completeness auto
termination
proof (relation "measure (\<lambda>(s, c). length s)")
  show "wf (measure (\<lambda>(s, c). length s))" by simp
next
  fix s ys :: string and c x :: char
  assume "dropWhile (\<lambda>x. x \<noteq> c) s = x # ys"
  then have "length ys < length (dropWhile (\<lambda>x. x \<noteq> c) s)"
    by simp
  also have "\<dots> \<le> length s"
    by (rule length_dropWhile_le)
  finally show "((ys, c), (s, c)) \<in> measure (\<lambda>(s, c). length s)"
    by simp
qed

declare split_str.simps [simp del]

subsection \<open>processArgs and init (lines 38-58 and 338-349)\<close>

text \<open>
  \<^verbatim>\<open>processArgs\<close> shifts the array it is given twice (it is \<^verbatim>\<open>process.argv\<close> itself, so
  the shifted array is returned too) and collects the \<^verbatim>\<open>key=value\<close> arguments.
\<close>

definition processArgs :: "string list \<Rightarrow> string list \<times> (string \<rightharpoonup> string)" where
  "processArgs arr =
     (let arr = drop 2 arr
      in (arr,
          foldl (\<lambda>options arg.
                   if indexOf arg CHR ''='' > 0
                   then (let pieces = split_str arg CHR ''=''
                         in options(pieces ! 0 \<mapsto> pieces ! 1))
                   else options)
            Map.empty arr))"

definition init :: "string option \<Rightarrow> int option \<Rightarrow> string option \<Rightarrow> 'e state \<Rightarrow> 'e state" where
  "init shost sport containerId st =
     (let (arr, options) = processArgs (argv st);
          st1 = st\<lparr>argv := arr\<rparr>;
          st2 = (if truthy (options ''--id'')
                 then st1\<lparr>ELEMENT_ID := the (options ''--id'')\<rparr> else st1);
          st3 = (if truthy (env_SELFNAME st2)
                 then st2\<lparr>ELEMENT_ID := the (env_SELFNAME st2)\<rparr> else st2);
          st4 = (if truthy (env_SSL st3) then st3\<lparr>SSL := True\<rparr> else st3);
          st5 = (if \<not> blank shost then st4\<lparr>host := the shost\<rparr> else st4);
          st6 = (case sport of
                   None \<Rightarrow> st5
                 | Some n \<Rightarrow> if \<not> (n = 0 \<or> n \<le> 0) then st5\<lparr>port := n\<rparr> else st5);
          st7 = (if \<not> blank containerId then st6\<lparr>ELEMENT_ID := the containerId\<rparr> else st6)
      in st7\<lparr>calls := calls st7 @ [Exec (''ping -c 3 '' @ host st7)]\<rparr>)"

text \<open>
  \<^verbatim>\<open>checkHost\<close>, the callback of the \<^verbatim>\<open>ping\<close> child process; \<open>failed\<close> is
  \<^verbatim>\<open>stderr != '' || error !== null\<close>.
\<close>

definition checkHost :: "bool \<Rightarrow> 'e state \<Rightarrow> 'e state" where
  "checkHost failed st =
     (let st1 = (if failed then st\<lparr>host := ''127.0.0.1''\<rparr> else st)
      in st1\<lparr>calls := calls st1 @ [MainCb]\<rparr>)"

subsection \<open>Endpoint URLs (lines 247-274)\<close>

definition getEndpointURL :: "string \<Rightarrow> string \<Rightarrow> 'e state \<Rightarrow> string" where
  "getEndpointURL protocol url st =
     protocol @ ''://'' @ host st @ '':'' @ numberToString (port st) @ url"

definition getHttpURL :: "string \<Rightarrow> 'e state \<Rightarrow> string" where
  "getHttpURL url st =
     (let protocol = (if SSL st then ''https'' else ''http'')
      in getEndpointURL protocol url st)"

definition getWSURL :: "string \<Rightarrow> 'e state \<Rightarrow> string" where
  "getWSURL url st =
     (let protocol = (if SSL st then ''wss'' else ''ws'')
      in getEndpointURL protocol url st)"

subsection \<open>HTTP requests (lines 125-141 and 285-302)\<close>

text \<open>
  \<^verbatim>\<open>makeHttpRequest\<close> posts the JSON to the HTTP endpoint; the post is logged. Its
  response handler runs when the response arrives, after the call has returned.
\<close>

definition makeHttpRequest :: "string \<Rightarrow> (string \<times> jsval) list \<Rightarrow> 'e state \<Rightarrow> 'e state" where
  "makeHttpRequest url json st =
     (let url = getHttpURL url st
      in st\<lparr>calls := calls st @ [HttpPost url json]\<rparr>)"

definition getMessagesByQuery :: "jsval \<Rightarrow> jsval \<Rightarrow> jsval \<Rightarrow> 'e state \<Rightarrow> 'e result" where
  "getMessagesByQuery startdate enddate publishers st =
     (if isArray publishers
      then Inr (makeHttpRequest ''/v2/messages/query''
                  [(''id'', JStr (ELEMENT_ID st)),
                   (''timeframestart'', startdate),
                   (''timeframeend'', enddate),
                   (''publishers'', publishers)] st)
      else Inl (Error ''Publishers input is not array!'', st))"

subsection \<open>Opening the connections (lines 161-216 and 312-331)\<close>

text \<open>
  \<^verbatim>\<open>makeWSRequest(ws, listenerCb, url, onDataCb, sendMsgCb)\<close>. The new WebSocket is
  assigned to the parameter \<^verbatim>\<open>ws\<close>, a local variable: the store gets the socket, the
  local binding ends with the call, and the caller's variable is not written.
  \<open>cbs\<close> stands for \<^verbatim>\<open>listenerCb\<close> and \<^verbatim>\<open>onDataCb\<close>.
\<close>

definition makeWSRequest :: "nat option \<Rightarrow> channel \<Rightarrow> string \<Rightarrow> bool \<Rightarrow> 'e state \<Rightarrow> 'e state" where
  "makeWSRequest ws cbs url sendMsgCb st =
     (let url = getWSURL (url @ ELEMENT_ID st) st;
          st1 = st\<lparr>sockets := sockets st @
                  [\<lparr>ws_url = url, readyState = CONNECTING, handlers = cbs,
                    has_sendMsgCb = sendMsgCb, pingListener = False, written = []\<rparr>]\<rparr>;
          ws = Some (length (sockets st))
      in st1)"

definition wsControlConnection :: "'e state \<Rightarrow> 'e state" where
  "wsControlConnection st =
     makeWSRequest (wsControl st) Control ''/v2/control/socket/id/'' False st"

definition wsMessageConnection :: "bool \<Rightarrow> 'e state \<Rightarrow> 'e state" where
  "wsMessageConnection sendMsgCb st =
     makeWSRequest (wsMessage st) Message ''/v2/message/socket/id/'' sendMsgCb st"

text \<open>
  \<^verbatim>\<open>wsOnOpen\<close> in the closure of socket \<open>i\<close>: it calls \<^verbatim>\<open>sendMsgCb\<close> when there is one
  and then registers the \<^verbatim>\<open>'ping'\<close> listener. \<open>cbThrows\<close> says whether the application's
  \<^verbatim>\<open>sendMsgCb\<close> throws; then the listener is not registered.
\<close>

definition wsOnOpen :: "nat \<Rightarrow> bool \<Rightarrow> 'e state \<Rightarrow> 'e result" where
  "wsOnOpen i cbThrows st =
     (let st1 = (if has_sendMsgCb (sockets st ! i)
                 then st\<lparr>calls := calls st @ [SendMsgCb i]\<rparr> else st)
      in if has_sendMsgCb (sockets st ! i) \<and> cbThrows then Inl (CallbackError, st1)
         else Inr (st1\<lparr>sockets := (sockets st1)[i := (sockets st1 ! i)\<lparr>pingListener := True\<rparr>]\<rparr>))"

text \<open>
  \<^verbatim>\<open>wsPing\<close>, the \<^verbatim>\<open>'ping'\<close> listener in the closure of socket \<open>i\<close>. Its \<^verbatim>\<open>data\<close> is a
  buffer or \<^verbatim>\<open>null\<close>; \<^verbatim>\<open>data.length\<close> on \<^verbatim>\<open>null\<close> throws a \<^verbatim>\<open>TypeError\<close>.
\<close>

definition wsPing :: "nat \<Rightarrow> byte list option \<Rightarrow> bool \<Rightarrow> 'e state \<Rightarrow> 'e result" where
  "wsPing i data binary st =
     (if binary then
        (case data of
           None \<Rightarrow> Inl (TypeError, st)
         | Some bytes \<Rightarrow>
             if length bytes = 1
             then (let buffer = [OPCODE_PONG] in ws_pong i buffer st)
             else Inr st)
      else Inr st)"

text \<open>
  What the \<^verbatim>\<open>ws\<close> library does with a ping frame it receives on socket \<open>i\<close> (the
  \<^verbatim>\<open>onping\<close> of its \<^verbatim>\<open>WebSocket.js\<close>): it answers with a pong that carries the ping's
  payload, without failing on a socket that is not open, and then emits \<^verbatim>\<open>'ping'\<close> to
  the listeners, which is \<^verbatim>\<open>wsPing\<close> once \<^verbatim>\<open>wsOnOpen\<close> has registered it. An empty payload
  reaches the listeners as \<^verbatim>\<open>null\<close>.
\<close>

definition onping :: "nat \<Rightarrow> byte list \<Rightarrow> bool \<Rightarrow> 'e state \<Rightarrow> 'e result" where
  "onping i payload binary st =
     (let data = (if payload = [] then None else Some payload);
          st1 = state_of (ws_pong i payload st)
      in if pingListener (sockets st1 ! i) then wsPing i data binary st1 else Inr st1)"

text \<open>\<^verbatim>\<open>handleWsError\<close> in the closure of socket \<open>i\<close>.\<close>

definition handleWsError :: "nat \<Rightarrow> 'e state \<Rightarrow> 'e state" where
  "handleWsError i st = st\<lparr>calls := calls st @ [OnError i]\<rparr>"

subsection \<open>wsSendMessage (lines 223-230)\<close>

text \<open>
  Modelled from the spec: \<^verbatim>\<open>byteUtils.intToBytes\<close> (\<^verbatim>\<open>lib/byteUtils.js\<close> is not among the
  sources). The spec has the length of a MESSAGE frame as a 4-byte big-endian unsigned
  integer.
\<close>

definition intToBytes :: "nat \<Rightarrow> byte list" where
  "intToBytes n =
     [of_nat (n div 2 ^ 24 mod 256), of_nat (n div 2 ^ 16 mod 256),
      of_nat (n div 2 ^ 8 mod 256), of_nat (n mod 256)]"

text \<open>Lines 226-228: the buffer that \<^verbatim>\<open>wsSendMessage\<close> builds around the encoded message.\<close>

definition resultBuffer :: "byte list \<Rightarrow> byte list" where
  "resultBuffer msgBuffer =
     (let opCodeBuffer = [OPCODE_MSG];
          lengthBuffer = intToBytes (length msgBuffer)
      in opCodeBuffer @ lengthBuffer @ msgBuffer)"

text \<open>The encoder of the entity (\<^verbatim>\<open>ioMessageUtil.ioMsgBuffer\<close>) is a parameter.\<close>

definition wsSendMessage :: "('e \<Rightarrow> byte list) \<Rightarrow> 'e \<Rightarrow> 'e state \<Rightarrow> 'e result" where
  "wsSendMessage ioMsgBuffer ioMsg st =
     (case wsMessage st of
        None \<Rightarrow> Inl (Error ''WS is not connected'', st)
      | Some i \<Rightarrow>
          if readyState (sockets st ! i) \<noteq> OPEN then Inl (Error ''WS is not connected'', st)
          else (let msgBuffer = ioMsgBuffer ioMsg
                in ws_send i (resultBuffer msgBuffer) st))"

subsection \<open>Runs of the module\<close>

text \<open>
  What can happen to the module: the application calls an exported function, the child
  process of \<^verbatim>\<open>init\<close> ends, or the transport raises an event on a socket.
\<close>

datatype 'e action =
    Init "string option" "int option" "string option"
  | CheckHost bool
  | GetMessagesByQuery jsval jsval jsval
  | WsControlConnection
  | WsMessageConnection bool
  | WsSendMessage 'e
  | SockOpen nat bool
  | SockMessage nat "byte list" bool
  | SockPing nat "byte list" bool
  | SockError nat
  | SockClose nat

text \<open>
  The transport opens a socket that is connecting, and delivers messages and pings on a
  socket that is open; a ping goes through the library's \<open>onping\<close>.
\<close>

fun step ::
  "('e \<Rightarrow> byte list) \<Rightarrow> (byte list \<Rightarrow> 'e) \<Rightarrow> (byte list \<Rightarrow> string) \<Rightarrow> 'e action \<Rightarrow> 'e state \<Rightarrow> 'e result"
where
  "step enc dec toString (Init shost sport containerId) st = Inr (init shost sport containerId st)"
| "step enc dec toString (CheckHost failed) st = Inr (checkHost failed st)"
| "step enc dec toString (GetMessagesByQuery startdate enddate publishers) st =
     getMessagesByQuery startdate enddate publishers st"
| "step enc dec toString WsControlConnection st = Inr (wsControlConnection st)"
| "step enc dec toString (WsMessageConnection sendMsgCb) st = Inr (wsMessageConnection sendMsgCb st)"
| "step enc dec toString (WsSendMessage ioMsg) st = wsSendMessage enc ioMsg st"
| "step enc dec toString (SockOpen i cbThrows) st =
     (if i < length (sockets st) \<and> readyState (sockets st ! i) = CONNECTING
      then wsOnOpen i cbThrows
             (st\<lparr>sockets := (sockets st)[i := (sockets st ! i)\<lparr>readyState := OPEN\<rparr>]\<rparr>)
      else Inr st)"
| "step enc dec toString (SockMessage i data binary) st =
     (if i < length (sockets st) \<and> readyState (sockets st ! i) = OPEN
      then (case handlers (sockets st ! i) of
              Control \<Rightarrow> wsHandleControlData i data binary st
            | Message \<Rightarrow> wsHandleMessageData dec toString i data binary st)
      else Inr st)"
| "step enc dec toString (SockPing i payload binary) st =
     (if i < length (sockets st) \<and> readyState (sockets st ! i) = OPEN
      then onping i payload binary st
      else Inr st)"
| "step enc dec toString (SockError i) st =
     (if i < length (sockets st) then Inr (handleWsError i st) else Inr st)"
| "step enc dec toString (SockClose i) st =
     (if i < length (sockets st)
      then Inr (st\<lparr>sockets := (sockets st)[i := (sockets st ! i)\<lparr>readyState := CLOSED\<rparr>]\<rparr>)
      else Inr st)"

text \<open>A run goes on after a throw, from the state the throw left.\<close>

fun run ::
  "('e \<Rightarrow> byte list) \<Rightarrow> (byte list \<Rightarrow> 'e) \<Rightarrow> (byte list \<Rightarrow> string) \<Rightarrow> 'e action list \<Rightarrow> 'e state \<Rightarrow> 'e state"
where
  "run enc dec toString [] st = st"
| "run enc dec toString (a # as) st = run enc dec toString as (state_of (step enc dec toString a st))"

section \<open>Properties\<close>

subsection \<open>The module's socket variables\<close>

lemmas opcode_defs =
  OPCODE_PING_def OPCODE_PONG_def OPCODE_ACK_def OPCODE_CONTROL_SIGNAL_def
  OPCODE_MSG_def OPCODE_RECEIPT_def

lemma sendAck_None: "sendAck None st = Inr st"
  by (simp add: sendAck_def)

lemma init_vars: "wsControl (init shost sport containerId st) = wsControl st
    \<and> wsMessage (init shost sport containerId st) = wsMessage st"
  by (simp add: init_def Let_def split: prod.splits option.splits)

lemma checkHost_vars: "wsControl (checkHost failed st) = wsControl st
    \<and> wsMessage (checkHost failed st) = wsMessage st"
  by (simp add: checkHost_def Let_def)

lemma makeWSRequest_vars: "wsControl (makeWSRequest ws cbs url cb st) = wsControl st
    \<and> wsMessage (makeWSRequest ws cbs url cb st) = wsMessage st"
  by (simp add: makeWSRequest_def Let_def)

lemma getMessagesByQuery_vars: "wsControl (state_of (getMessagesByQuery s e p st)) = wsControl st
    \<and> wsMessage (state_of (getMessagesByQuery s e p st)) = wsMessage st"
  by (simp add: getMessagesByQuery_def makeHttpRequest_def Let_def)

lemma sendAck_vars:
  "wsControl (state_of (sendAck ws st)) = wsControl st
    \<and> wsMessage (state_of (sendAck ws st)) = wsMessage st"
  by (cases ws) (simp_all add: sendAck_def ws_send_def ws_write_def)

lemma wsHandleMessageData_vars:
  "wsControl (state_of (wsHandleMessageData dec ts i data binary st)) = wsControl st
    \<and> wsMessage (state_of (wsHandleMessageData dec ts i data binary st)) = wsMessage st"
  unfolding wsHandleMessageData_def Let_def
  by (simp add: sendAck_vars split: sum.split option.split prod.split)

lemma wsHandleControlData_vars:
  "wsControl (state_of (wsHandleControlData i data binary st)) = wsControl st
    \<and> wsMessage (state_of (wsHandleControlData i data binary st)) = wsMessage st"
  unfolding wsHandleControlData_def Let_def
  by (simp add: sendAck_vars)

lemma wsSendMessage_vars:
  "wsControl (state_of (wsSendMessage enc ioMsg st)) = wsControl st
    \<and> wsMessage (state_of (wsSendMessage enc ioMsg st)) = wsMessage st"
  unfolding wsSendMessage_def Let_def
  by (simp add: ws_send_def ws_write_def split: option.split)

lemma wsOnOpen_vars:
  "wsControl (state_of (wsOnOpen i thr st)) = wsControl st
    \<and> wsMessage (state_of (wsOnOpen i thr st)) = wsMessage st"
  by (simp add: wsOnOpen_def Let_def)

lemma wsPing_vars:
  "wsControl (state_of (wsPing i data binary st)) = wsControl st
    \<and> wsMessage (state_of (wsPing i data binary st)) = wsMessage st"
  by (cases data) (simp_all add: wsPing_def ws_pong_def ws_write_def Let_def)

lemma onping_vars:
  "wsControl (state_of (onping i payload binary st)) = wsControl st
    \<and> wsMessage (state_of (onping i payload binary st)) = wsMessage st"
proof -
  have "wsControl (state_of (ws_pong i payload st)) = wsControl st
      \<and> wsMessage (state_of (ws_pong i payload st)) = wsMessage st"
    by (simp add: ws_pong_def ws_write_def)
  then show ?thesis
    unfolding onping_def Let_def by (simp add: wsPing_vars)
qed

lemma step_vars:
  "wsControl (state_of (step enc dec ts a st)) = wsControl st
    \<and> wsMessage (state_of (step enc dec ts a st)) = wsMessage st"
proof (cases a)
  case (SockMessage i data binary)
  then show ?thesis
    by (cases "handlers (sockets st ! i)")
      (simp_all add: wsHandleControlData_vars wsHandleMessageData_vars)
next
  case (SockOpen i thr)
  then show ?thesis
    using wsOnOpen_vars [of i thr "st\<lparr>sockets := (sockets st)[i := (sockets st ! i)\<lparr>readyState := OPEN\<rparr>]\<rparr>"]
    by simp
qed (simp_all add: init_vars checkHost_vars makeWSRequest_vars
      wsControlConnection_def wsMessageConnection_def getMessagesByQuery_vars
      wsSendMessage_vars onping_vars handleWsError_def)

lemma run_vars:
  "wsControl (run enc dec ts as st) = wsControl st
    \<and> wsMessage (run enc dec ts as st) = wsMessage st"
  by (induction as arbitrary: st) (simp_all add: step_vars)

text \<open>
  Claim C3. The module's variables \<^verbatim>\<open>wsControl\<close> and \<^verbatim>\<open>wsMessage\<close> are undefined after
  every run of the module from its loaded state, whatever the application calls and
  whatever the transport delivers: \<^verbatim>\<open>makeWSRequest\<close> puts the new WebSocket into the
  store and leaves both variables as they were. So \<^verbatim>\<open>wsSendMessage\<close> throws
  \<^verbatim>\<open>WS is not connected\<close> in every state a run reaches, and \<^verbatim>\<open>sendAck\<close> called with
  \<^verbatim>\<open>wsControl\<close>, with \<^verbatim>\<open>wsMessage\<close> or with no argument writes nothing.
\<close>

theorem module_sockets_stay_undefined:
  fixes enc :: "'e \<Rightarrow> byte list"
  shows
  "(let st = run enc dec toString as (initial args selfname ssl)
    in wsControl st = None \<and> wsMessage st = None
       \<and> wsSendMessage enc ioMsg st = Inl (Error ''WS is not connected'', st)
       \<and> sendAck (wsControl st) st = Inr st
       \<and> sendAck (wsMessage st) st = Inr st
       \<and> sendAck None st = Inr st)
   \<and> sockets (makeWSRequest ws cbs url sendMsgCb st') =
        sockets st' @ [\<lparr>ws_url = getWSURL (url @ ELEMENT_ID st') st', readyState = CONNECTING,
                        handlers = cbs, has_sendMsgCb = sendMsgCb, pingListener = False,
                        written = []\<rparr>]
   \<and> wsControl (makeWSRequest ws cbs url sendMsgCb st') = wsControl st'
   \<and> wsMessage (makeWSRequest ws cbs url sendMsgCb st') = wsMessage st'"
proof -
  define st where "st = run enc dec toString as (initial args selfname ssl)"
  have c: "wsControl st = None" and m: "wsMessage st = None"
    unfolding st_def by (simp_all add: run_vars initial_def)
  have s: "wsSendMessage enc ioMsg st = Inl (Error ''WS is not connected'', st)"
    using m by (simp add: wsSendMessage_def)
  have a: "sendAck None st = Inr st"
    by (rule sendAck_None)
  have w: "sockets (makeWSRequest ws cbs url sendMsgCb st') =
        sockets st' @ [\<lparr>ws_url = getWSURL (url @ ELEMENT_ID st') st', readyState = CONNECTING,
                        handlers = cbs, has_sendMsgCb = sendMsgCb, pingListener = False,
                        written = []\<rparr>]"
    by (simp add: makeWSRequest_def Let_def)
  from c m s a w makeWSRequest_vars [of ws cbs url sendMsgCb st'] show ?thesis
    unfolding st_def [symmetric] Let_def by simp
qed

theorem module_sockets_stay_undefined_witness:
  "(let st = run (\<lambda>m. m) (\<lambda>b. b) (\<lambda>b. [])
               [WsMessageConnection True, SockOpen 0 False, WsControlConnection]
               (initial [] None None)
    in wsControl st = None \<and> wsMessage st = None
       \<and> map readyState (sockets st) = [OPEN, CONNECTING]
       \<and> wsSendMessage (\<lambda>m. m) [1, 2, 3] st = Inl (Error ''WS is not connected'', st)
       \<and> sendAck (wsControl st) st = Inr st
       \<and> sendAck (wsMessage st) st = Inr st)"
proof -
  have r: "map readyState (sockets (run (\<lambda>m. m) (\<lambda>b. b) (\<lambda>b. [])
               [WsMessageConnection True, SockOpen 0 False, WsControlConnection]
               (initial [] None None :: byte list state))) = [OPEN, CONNECTING]"
    by (simp add: initial_def wsMessageConnection_def wsControlConnection_def
        makeWSRequest_def wsOnOpen_def Let_def)
  note t = module_sockets_stay_undefined [of "\<lambda>m. m" "\<lambda>b. b" "\<lambda>b. []"
      "[WsMessageConnection True, SockOpen 0 False, WsControlConnection]" "[]" None None
      "[1, 2, 3]", unfolded Let_def]
  from t r show ?thesis
    unfolding Let_def by blast
qed

subsection \<open>Acknowledgements\<close>

text \<open>
  Claim C1 says that every dispatched CONTROL_SIGNAL, MESSAGE or RECEIPT frame is answered
  by exactly one ACK frame, the byte 0x0B, on the socket it came in on. The run below
  opens both connections and delivers one frame of each kind: the three callbacks are
  invoked, both sockets are open, and nothing has been written to either socket.
  \<^verbatim>\<open>sendAck\<close> gets the module's variable (undefined, see C3) in the control and RECEIPT
  branches and no argument in the MESSAGE branch.
\<close>

theorem dispatched_frames_get_no_ack:
  "(let st = run (\<lambda>m. m) (\<lambda>b. b) (\<lambda>b. map (\<lambda>x. char_of (unat x)) b)
               [WsControlConnection, WsMessageConnection False,
                SockOpen 0 False, SockOpen 1 False,
                SockMessage 0 [0x0C] True,
                SockMessage 1 [0x0D, 0, 0, 0, 3, 0x61, 0x62, 0x63] True,
                SockMessage 1 [0x0E, 0, 0] True]
               (initial [] None None)
    in calls st = [OnNewConfigSignal 0, OnMessages 1 [[0x61, 0x62, 0x63]],
                   OnMessageReceipt 1 [] 0]
       \<and> map readyState (sockets st) = [OPEN, OPEN]
       \<and> map written (sockets st) = [[], []])"
  by (simp add: initial_def wsMessageConnection_def wsControlConnection_def
        makeWSRequest_def wsOnOpen_def Let_def wsHandleControlData_def wsHandleMessageData_def
        opcode_defs sendAck_def readUIntBE_def slice_def byteAt_def)

subsection \<open>Sending a message\<close>

text \<open>
  Claim C2 says that \<^verbatim>\<open>wsSendMessage\<close> throws exactly when the socket of the message
  connection is not open. In the run below the message connection has been opened, its
  socket is in state \<^verbatim>\<open>OPEN\<close> and \<^verbatim>\<open>sendMsgCb\<close> has been called, and \<^verbatim>\<open>wsSendMessage\<close>
  still throws \<^verbatim>\<open>WS is not connected\<close>: it tests the module's variable \<^verbatim>\<open>wsMessage\<close>,
  which no code assigns.
\<close>

theorem wsSendMessage_throws_on_open_socket:
  "(let st = run (\<lambda>m. m) (\<lambda>b. b) (\<lambda>b. [])
               [WsMessageConnection True, SockOpen 0 False] (initial [] None None)
    in map handlers (sockets st) = [Message]
       \<and> map readyState (sockets st) = [OPEN]
       \<and> calls st = [SendMsgCb 0]
       \<and> wsSendMessage (\<lambda>m. m) [1, 2, 3] st = Inl (Error ''WS is not connected'', st))"
  by (simp add: initial_def wsMessageConnection_def 
        makeWSRequest_def wsOnOpen_def Let_def wsSendMessage_def)

subsection \<open>The MESSAGE frame\<close>

lemma be4: 
  assumes "n < 2 ^ 32"
  shows "foldl (\<lambda>val b. val * 256 + unat b) 0 (intToBytes n) = n"
proof -
  define q1 where "q1 = n div 256"
  define q2 where "q2 = q1 div 256"
  define q3 where "q3 = q2 div 256"
  have d8: "n div 2 ^ 8 = q1"
    by (simp add: q1_def)
  have d16: "n div 2 ^ 16 = q2"
    unfolding q2_def q1_def by (simp add: div_mult2_eq)
  have d24: "n div 2 ^ 24 = q3"
    unfolding q3_def q2_def q1_def by (simp add: div_mult2_eq)
  have "q3 < 256"
    using assms unfolding d24 [symmetric] by (simp add: less_mult_imp_div_less)
  then have m3: "q3 mod 256 = q3"
    by simp
  have e1: "n = q1 * 256 + n mod 256"
    unfolding q1_def by simp
  have e2: "q1 = q2 * 256 + q1 mod 256"
    unfolding q2_def by simp
  have e3: "q2 = q3 * 256 + q2 mod 256"
    unfolding q3_def by simp
  have "foldl (\<lambda>val b. val * 256 + unat b) 0 (intToBytes n)
      = ((q3 mod 256 * 256 + q2 mod 256) * 256 + q1 mod 256) * 256 + n mod 256"
    unfolding intToBytes_def d8 d16 d24 by (simp add: unat_of_nat)
  also have "\<dots> = (q2 * 256 + q1 mod 256) * 256 + n mod 256"
    using e3 m3 by simp
  also have "\<dots> = n"
    using e1 e2 by simp
  finally show ?thesis .
qed

lemma resultBuffer_parts:
  "take 4 (drop 1 (resultBuffer b @ extra)) = intToBytes (length b)
   \<and> drop 5 (resultBuffer b @ extra) = b @ extra
   \<and> 5 \<le> length (resultBuffer b @ extra)
   \<and> resultBuffer b @ extra \<noteq> []
   \<and> (resultBuffer b @ extra) ! 0 = OPCODE_MSG"
  by (simp add: resultBuffer_def intToBytes_def)

lemma readUIntBE_resultBuffer:
  assumes "length b < 2 ^ 32"
  shows "readUIntBE (resultBuffer b @ extra) 1 4 = Inr (length b)"
proof -
  have "1 + 4 \<le> length (resultBuffer b @ extra)"
    using resultBuffer_parts [of b extra] by simp
  then have "readUIntBE (resultBuffer b @ extra) 1 4
      = Inr (foldl (\<lambda>val b. val * 256 + unat b) 0 (take 4 (drop 1 (resultBuffer b @ extra))))"
    unfolding readUIntBE_def by simp
  also have "\<dots> = Inr (length b)"
    using resultBuffer_parts [of b extra] be4 [OF assms] by simp
  finally show ?thesis .
qed

text \<open>
  Claim C4. For a byte sequence \<open>b\<close> shorter than \<open>2^32\<close>, the buffer that
  \<^verbatim>\<open>wsSendMessage\<close> builds is the byte 0x0D, the four bytes of the length, and \<open>b\<close>; on
  that buffer, followed by any further bytes, the MESSAGE branch of the handler reads the
  length of \<open>b\<close> as the big-endian number at offset 1, slices exactly \<open>b\<close> from offset 5,
  and hands the entity decoded from \<open>b\<close> to \<^verbatim>\<open>onMessages\<close>.
\<close>

theorem message_frame_round_trip:
  "length b < 2 ^ 32 \<longrightarrow>
     resultBuffer b = [0x0D] @ intToBytes (length b) @ b
     \<and> length (intToBytes (length b)) = 4
     \<and> readUIntBE (resultBuffer b @ extra) 1 4 = Inr (length b)
     \<and> slice (resultBuffer b @ extra) 5 (length b + 5) = b
     \<and> wsHandleMessageData dec toString i (resultBuffer b @ extra) True st
         = Inr (st\<lparr>calls := calls st @ [OnMessages i [dec b]]\<rparr>)"
proof
  assume len: "length b < 2 ^ 32"
  have shape: "resultBuffer b = [0x0D] @ intToBytes (length b) @ b"
    by (simp add: resultBuffer_def opcode_defs)
  have four: "length (intToBytes (length b)) = 4"
    by (simp add: intToBytes_def)
  have rd: "readUIntBE (resultBuffer b @ extra) 1 4 = Inr (length b)"
    by (rule readUIntBE_resultBuffer [OF len])
  have sl: "slice (resultBuffer b @ extra) 5 (length b + 5) = b"
    using resultBuffer_parts [of b extra] by (simp add: slice_def)
  have sl': "slice (resultBuffer b @ extra) (1 + 4) (length b + (1 + 4)) = b"
    using sl by simp
  have hd: "(resultBuffer b @ extra) ! 0 = OPCODE_MSG" and ne: "resultBuffer b @ extra \<noteq> []"
    using resultBuffer_parts [of b extra] by simp_all
  have "wsHandleMessageData dec toString i (resultBuffer b @ extra) True st
         = Inr (st\<lparr>calls := calls st @ [OnMessages i [dec b]]\<rparr>)"
    unfolding wsHandleMessageData_def Let_def
    using hd ne rd sl' by (simp add: sendAck_def)
  with shape four rd sl
  show "resultBuffer b = [0x0D] @ intToBytes (length b) @ b
     \<and> length (intToBytes (length b)) = 4
     \<and> readUIntBE (resultBuffer b @ extra) 1 4 = Inr (length b)
     \<and> slice (resultBuffer b @ extra) 5 (length b + 5) = b
     \<and> wsHandleMessageData dec toString i (resultBuffer b @ extra) True st
         = Inr (st\<lparr>calls := calls st @ [OnMessages i [dec b]]\<rparr>)"
    by blast
qed

theorem message_frame_round_trip_witness:
  "resultBuffer [0x61, 0x62, 0x63] = [0x0D, 0, 0, 0, 3, 0x61, 0x62, 0x63]
   \<and> wsHandleMessageData (\<lambda>b. b) (\<lambda>b. []) 0 (resultBuffer [0x61, 0x62, 0x63] @ [0xFF]) True
        (wsMessageConnection False (initial [] None None))
      = Inr ((wsMessageConnection False (initial [] None None))
              \<lparr>calls := calls (wsMessageConnection False (initial [] None None))
                          @ [OnMessages 0 [[0x61, 0x62, 0x63]]]\<rparr>)"
proof -
  have l: "length [0x61, 0x62, 0x63 :: byte] < 2 ^ 32"
    by simp
  have rb: "resultBuffer [0x61, 0x62, 0x63] = [0x0D, 0, 0, 0, 3, 0x61, 0x62, 0x63]"
    by (simp add: resultBuffer_def intToBytes_def opcode_defs)
  note t = message_frame_round_trip [of "[0x61, 0x62, 0x63]" "[0xFF]" "\<lambda>b. b" "\<lambda>b. []" 0
      "wsMessageConnection False (initial [] None None)", THEN mp, OF l]
  from rb t show ?thesis
    by blast
qed

subsection \<open>Receipts\<close>








subsection \<open>The identity of the client\<close>

text \<open>
  Claim C6 puts the environment before the argument. With \<^verbatim>\<open>SELFNAME\<close> set to
  \<^verbatim>\<open>envid\<close> and the argument \<^verbatim>\<open>containerId\<close> given as \<^verbatim>\<open>argid\<close>, \<^verbatim>\<open>init\<close> leaves
  \<^verbatim>\<open>argid\<close> as the identity: the argument is assigned last.
\<close>

theorem identity_argument_beats_environment:
  "ELEMENT_ID (init None None (Some ''argid'') (initial [] (Some ''envid'') None :: unit state))
     = ''argid''
   \<and> ELEMENT_ID (init None None (Some ''argid'') (initial [] (Some ''envid'') None :: unit state))
     \<noteq> ''envid''"
  by (simp add: init_def initial_def processArgs_def trimsToEmpty_def
        trimStart.simps leadingWhiteSpace_def whiteSpace_def Let_def)

text \<open>
  Claim C6, amended. After \<^verbatim>\<open>init\<close> the identity is the argument \<^verbatim>\<open>containerId\<close> when
  it is not blank; else the environment variable \<^verbatim>\<open>SELFNAME\<close> when it is set to a
  non-empty string; else the command-line option \<^verbatim>\<open>--id\<close> when it has a non-empty value;
  else the identity before the call, which in the module as loaded is the placeholder
  \<^verbatim>\<open>NOT_DEFINED\<close>.
\<close>

theorem identity_precedence:
  "ELEMENT_ID (init shost sport containerId st) =
     (if \<not> blank containerId then the containerId
      else if truthy (env_SELFNAME st) then the (env_SELFNAME st)
      else if truthy (snd (processArgs (argv st)) ''--id'')
           then the (snd (processArgs (argv st)) ''--id'')
      else ELEMENT_ID st)
   \<and> ELEMENT_ID (initial args selfname ssl :: 'e state) = ''NOT_DEFINED''"
  by (simp add: init_def Let_def initial_def split: prod.splits option.splits)

theorem identity_precedence_witness:
  "ELEMENT_ID (init None None (Some ''c1'') (initial [] (Some ''envid'') None :: unit state)) = ''c1''
   \<and> ELEMENT_ID (init None None (Some '' '') (initial [] (Some ''envid'') None :: unit state))
       = ''envid''
   \<and> ELEMENT_ID (init None None None (initial [''node'', ''main.js'', ''--id=cli''] None None :: unit state))
       = ''cli''
   \<and> ELEMENT_ID (init None None None (initial [] None None :: unit state)) = ''NOT_DEFINED''"
proof -
  have b1: "\<not> trimsToEmpty ''c1''" and b2: "trimsToEmpty '' ''"
    by (simp_all add: trimsToEmpty_def trimStart.simps leadingWhiteSpace_def whiteSpace_def)
  have p: "snd (processArgs [''node'', ''main.js'', ''--id=cli'']) ''--id'' = Some ''cli''"
    by (simp add: processArgs_def indexOf_def split_str.simps Let_def)
  have q: "snd (processArgs []) ''--id'' = None"
    by (simp add: processArgs_def)
  show ?thesis
    using identity_precedence [of None None "Some ''c1''" "initial [] (Some ''envid'') None :: unit state"]
      identity_precedence [of None None "Some '' ''" "initial [] (Some ''envid'') None :: unit state"]
      identity_precedence [of None None None "initial [''node'', ''main.js'', ''--id=cli''] None None :: unit state"]
      identity_precedence [of None None None "initial [] None None :: unit state"]
    by (simp add: b1 b2 initial_def p q)
qed

subsection \<open>The default port in a URL\<close>

lemma digits_54321: "numberToString 54321 = ''54321''"
  by (simp add: numberToString_def digits.simps)

subsection \<open>Keepalive\<close>

text \<open>
  Claim C7 says that the pong sent in reply to a ping carries the ping's payload. On an
  open control socket with the listener registered, a ping with the byte 2A is answered
  by two pongs: the library's, with the payload 2A, and then \<^verbatim>\<open>wsPing\<close>'s own, whose
  payload is the single byte 0A, not 2A.
\<close>

theorem keepalive_reply_not_an_echo:
  "map written (sockets (run (\<lambda>m. m) (\<lambda>b. b) (\<lambda>b. [])
         [WsControlConnection, SockOpen 0 False, SockPing 0 [0x2A] True]
         (initial [] None None)))
     = [[PongFrame [0x2A], PongFrame [0x0A]]]
   \<and> map written (sockets (state_of (wsPing 0 (Some [0x2A]) True
         (run (\<lambda>m. m) (\<lambda>b. b) (\<lambda>b. []) [WsControlConnection, SockOpen 0 False]
            (initial [] None None)))))
     = [[PongFrame [0x0A]]]"
  by (simp add: initial_def wsControlConnection_def makeWSRequest_def wsOnOpen_def Let_def
      onping_def wsPing_def ws_pong_def ws_write_def opcode_defs)

text \<open>
  Claim C7, amended. Every ping on an open socket is answered on the same socket by a pong
  that carries the ping's payload, sent by the library before the listeners run, and the
  log of calls is unchanged: the application is not involved. When the ping is binary with
  a payload of exactly one byte and the \<^verbatim>\<open>'ping'\<close> listener is registered, a second pong
  follows on the same socket, whose payload is the single byte 0x0A (the PONG opcode);
  after any other ping with a payload nothing follows.
\<close>

theorem keepalive_reply:
  "i < length (sockets st) \<and> readyState (sockets st ! i) = OPEN \<longrightarrow>
     (payload \<noteq> [] \<longrightarrow>
        step enc dec toString (SockPing i payload binary) st =
          Inr (st\<lparr>sockets := (sockets st)
                 [i := (sockets st ! i)
                    \<lparr>written := written (sockets st ! i) @ PongFrame payload #
                       (if pingListener (sockets st ! i) \<and> binary \<and> length payload = 1
                        then [PongFrame [0x0A]] else [])\<rparr>]\<rparr>))
     \<and> written (sockets (state_of (step enc dec toString (SockPing i [] binary) st)) ! i)
          = written (sockets st ! i) @ [PongFrame []]
     \<and> calls (state_of (step enc dec toString (SockPing i payload binary) st)) = calls st"
proof
  assume a: "i < length (sockets st) \<and> readyState (sockets st ! i) = OPEN"
  have full: "payload \<noteq> [] \<longrightarrow>
        step enc dec toString (SockPing i payload binary) st =
          Inr (st\<lparr>sockets := (sockets st)
                 [i := (sockets st ! i)
                    \<lparr>written := written (sockets st ! i) @ PongFrame payload #
                       (if pingListener (sockets st ! i) \<and> binary \<and> length payload = 1
                        then [PongFrame [0x0A]] else [])\<rparr>]\<rparr>)"
    using a by (simp add: onping_def wsPing_def ws_pong_def ws_write_def opcode_defs Let_def)
  have empty: "written (sockets (state_of (step enc dec toString (SockPing i [] binary) st)) ! i)
          = written (sockets st ! i) @ [PongFrame []]"
    using a by (simp add: onping_def wsPing_def ws_pong_def ws_write_def Let_def)
  have log: "calls (state_of (step enc dec toString (SockPing i payload binary) st)) = calls st"
    using a by (cases "payload = []")
      (simp_all add: onping_def wsPing_def ws_pong_def ws_write_def Let_def)
  from full empty log
  show "(payload \<noteq> [] \<longrightarrow>
        step enc dec toString (SockPing i payload binary) st =
          Inr (st\<lparr>sockets := (sockets st)
                 [i := (sockets st ! i)
                    \<lparr>written := written (sockets st ! i) @ PongFrame payload #
                       (if pingListener (sockets st ! i) \<and> binary \<and> length payload = 1
                        then [PongFrame [0x0A]] else [])\<rparr>]\<rparr>))
     \<and> written (sockets (state_of (step enc dec toString (SockPing i [] binary) st)) ! i)
          = written (sockets st ! i) @ [PongFrame []]
     \<and> calls (state_of (step enc dec toString (SockPing i payload binary) st)) = calls st"
    by blast
qed

theorem keepalive_reply_witness:
  "map written (sockets (state_of (step (\<lambda>m. m) (\<lambda>b. b) (\<lambda>b. []) (SockPing 0 [0x2A] True)
       (run (\<lambda>m. m) (\<lambda>b. b) (\<lambda>b. []) [WsControlConnection, SockOpen 0 False]
         (initial [] None None)))))
     = [[PongFrame [0x2A], PongFrame [0x0A]]]
   \<and> map written (sockets (state_of (step (\<lambda>m. m) (\<lambda>b. b) (\<lambda>b. [])
       (SockPing 0 [0x09, 0x01] True)
       (run (\<lambda>m. m) (\<lambda>b. b) (\<lambda>b. []) [WsControlConnection, SockOpen 0 False]
         (initial [] None None)))))
     = [[PongFrame [0x09, 0x01]]]"
proof -
  have r: "run (\<lambda>m. m) (\<lambda>b. b) (\<lambda>b. []) [WsControlConnection, SockOpen 0 False]
         (initial [] None None :: byte list state)
      = (initial [] None None)\<lparr>sockets :=
           [\<lparr>ws_url = ''ws://iofabric:54321/v2/control/socket/id/NOT_DEFINED'',
             readyState = OPEN, handlers = Control, has_sendMsgCb = False,
             pingListener = True, written = []\<rparr>]\<rparr>"
    by (simp add: initial_def wsControlConnection_def makeWSRequest_def wsOnOpen_def Let_def
        getWSURL_def getEndpointURL_def digits_54321)
  show ?thesis
    using keepalive_reply [of 0 "run (\<lambda>m. m) (\<lambda>b. b) (\<lambda>b. []) [WsControlConnection, SockOpen 0 False]
         (initial [] None None :: byte list state)" "[0x2A]" "\<lambda>m. m" "\<lambda>b. b" "\<lambda>b. []" True]
      keepalive_reply [of 0 "run (\<lambda>m. m) (\<lambda>b. b) (\<lambda>b. []) [WsControlConnection, SockOpen 0 False]
         (initial [] None None :: byte list state)" "[0x09, 0x01]" "\<lambda>m. m" "\<lambda>b. b" "\<lambda>b. []" True]
    unfolding r by simp
qed

subsection \<open>Frames that no branch handles\<close>

text \<open>
  Claim C8. A frame whose first byte is not 0x0C on the control connection, or neither
  0x0D nor 0x0E on the message connection, and a frame of length zero, are dropped: the
  handler returns without throwing and the state is unchanged, so no callback has been
  invoked and no ACK has been written.
\<close>

theorem unrecognised_frames_dropped:
  "(opcode \<noteq> 0xC \<longrightarrow> wsHandleControlData i (opcode # payload) binary st = Inr st)
   \<and> wsHandleControlData i [] binary st = Inr st
   \<and> (opcode \<noteq> 0xD \<and> opcode \<noteq> 0xE \<longrightarrow>
        wsHandleMessageData dec toString i (opcode # payload) binary st = Inr st)
   \<and> wsHandleMessageData dec toString i [] binary st = Inr st"
  by (simp add: wsHandleControlData_def wsHandleMessageData_def opcode_defs)

theorem unrecognised_frames_dropped_witness:
  "wsHandleControlData 0 [0xFF, 1, 2] True (wsControlConnection (initial [] None None :: unit state))
     = Inr (wsControlConnection (initial [] None None))
   \<and> wsHandleMessageData (\<lambda>b. ()) (\<lambda>b. []) 0 [0xFF, 1, 2] True
       (wsMessageConnection False (initial [] None None))
     = Inr (wsMessageConnection False (initial [] None None))"
  using unrecognised_frames_dropped [of "0xFF" 0 "[1, 2]" True
      "wsControlConnection (initial [] None None :: unit state)"]
    unrecognised_frames_dropped [of "0xFF" 0 "[1, 2]" True
      "wsMessageConnection False (initial [] None None :: unit state)" "\<lambda>b. ()" "\<lambda>b. []"]
  by simp

subsection \<open>Endpoint URLs\<close>

text \<open>
  Claim C9. The socket that \<^verbatim>\<open>wsControlConnection\<close> or \<^verbatim>\<open>wsMessageConnection\<close> constructs
  has the URL \<^verbatim>\<open>scheme://host:port\<close>, then \<^verbatim>\<open>/v2/control/socket/id\<close> or
  \<^verbatim>\<open>/v2/message/socket/id\<close>, then \<^verbatim>\<open>/\<close> and the identity of the client; the scheme is
  \<^verbatim>\<open>wss\<close> when the TLS flag is set and \<^verbatim>\<open>ws\<close> when it is not.
\<close>

theorem channel_endpoint_url:
  "sockets (wsControlConnection st) =
     sockets st @
     [\<lparr>ws_url = (if SSL st then ''wss'' else ''ws'') @ ''://'' @ host st @ '':'' @
                 numberToString (port st) @ ''/v2/control/socket/id'' @ ''/'' @ ELEMENT_ID st,
       readyState = CONNECTING, handlers = Control, has_sendMsgCb = False,
       pingListener = False, written = []\<rparr>]
   \<and> sockets (wsMessageConnection sendMsgCb st) =
     sockets st @
     [\<lparr>ws_url = (if SSL st then ''wss'' else ''ws'') @ ''://'' @ host st @ '':'' @
                 numberToString (port st) @ ''/v2/message/socket/id'' @ ''/'' @ ELEMENT_ID st,
       readyState = CONNECTING, handlers = Message, has_sendMsgCb = sendMsgCb,
       pingListener = False, written = []\<rparr>]"
  by (simp add: wsControlConnection_def wsMessageConnection_def makeWSRequest_def
      getWSURL_def getEndpointURL_def Let_def)

theorem channel_endpoint_url_witness:
  "map ws_url (sockets (wsControlConnection (initial [] None None :: unit state)))
     = [''ws://iofabric:54321/v2/control/socket/id/NOT_DEFINED'']
   \<and> map ws_url (sockets (wsMessageConnection True
        (init None None (Some ''c1'') (initial [] None (Some ''1'') :: unit state))))
     = [''wss://iofabric:54321/v2/message/socket/id/c1'']"
proof -
  have i: "init None None (Some ''c1'') (initial [] None (Some ''1'') :: unit state)
      = (initial [] None (Some ''1''))\<lparr>ELEMENT_ID := ''c1'', SSL := True,
           calls := [Exec ''ping -c 3 iofabric'']\<rparr>"
    by (simp add: init_def initial_def processArgs_def trimsToEmpty_def
        trimStart.simps leadingWhiteSpace_def whiteSpace_def Let_def)
  show ?thesis
    using channel_endpoint_url [of "initial [] None None :: unit state"]
      channel_endpoint_url [of "init None None (Some ''c1'') (initial [] None (Some ''1'') :: unit state)" True]
    unfolding i
    by (simp add: digits_54321 initial_def)
qed

subsection \<open>getMessagesByQuery\<close>

text \<open>
  Claim C10. \<^verbatim>\<open>getMessagesByQuery\<close> throws the error \<^verbatim>\<open>Publishers input is not array!\<close>,
  leaving the state (and so the log of requests and callbacks) as it was, exactly when
  \<^verbatim>\<open>publishers\<close> is not an array; when it is an array the call returns with the HTTP post
  logged.
\<close>

theorem getMessagesByQuery_throws_iff_not_array:
  "(getMessagesByQuery startdate enddate publishers st
      = Inl (Error ''Publishers input is not array!'', st)) = (\<not> isArray publishers)
   \<and> isl (getMessagesByQuery startdate enddate publishers st) = (\<not> isArray publishers)
   \<and> (isArray publishers \<longrightarrow>
        getMessagesByQuery startdate enddate publishers st
          = Inr (st\<lparr>calls := calls st @
                  [HttpPost (getHttpURL ''/v2/messages/query'' st)
                     [(''id'', JStr (ELEMENT_ID st)), (''timeframestart'', startdate),
                      (''timeframeend'', enddate), (''publishers'', publishers)]]\<rparr>))"
  by (simp add: getMessagesByQuery_def makeHttpRequest_def Let_def)

theorem getMessagesByQuery_throws_iff_not_array_witness:
  "getMessagesByQuery (JNum 1) (JNum 2) (JStr ''p1'') (initial [] None None :: unit state)
      = Inl (Error ''Publishers input is not array!'', initial [] None None)
   \<and> \<not> isl (getMessagesByQuery (JNum 1) (JNum 2) (JArr [JStr ''p1''])
              (initial [] None None :: unit state))"
  using getMessagesByQuery_throws_iff_not_array [of "JNum 1" "JNum 2" "JStr ''p1''"
      "initial [] None None :: unit state"]
    getMessagesByQuery_throws_iff_not_array [of "JNum 1" "JNum 2" "JArr [JStr ''p1'']"
      "initial [] None None :: unit state"]
  by simp

end
